theory Spec2Isabelle
  imports Complex_Main
begin

section \<open>Exceptions\<close>

text \<open>
  The Python exceptions the modelled code raises. A call that raises is a value
  \<open>Inl e\<close>; a call that returns \<open>v\<close> is \<open>Inr v\<close>. \<open>SystemExit\<close> is what
  \<open>sys.exit(code)\<close> raises.
\<close>

datatype pyerror =
    AssertionError string
  | AttributeError string
  | NotImplementedError string
  | RuntimeError string
  | IndexError string
  | StopIteration
  | SystemExit int

fun error_class :: "pyerror \<Rightarrow> string" where
  "error_class (AssertionError _) = ''AssertionError''"
| "error_class (AttributeError _) = ''AttributeError''"
| "error_class (NotImplementedError _) = ''NotImplementedError''"
| "error_class (RuntimeError _) = ''RuntimeError''"
| "error_class (IndexError _) = ''IndexError''"
| "error_class StopIteration = ''StopIteration''"
| "error_class (SystemExit _) = ''SystemExit''"

section \<open>xpmir/learning/base.py: Sampler\<close>

text \<open>
  \<open>Sampler.initialize(self, random)\<close> is
  \<open>self.random = random or np.random.RandomState(random.randint(0, 2**31))\<close>.
  The argument is \<open>Optional[RandomState]\<close>: \<open>None\<close> or an object \<open>Some r\<close>.
  The constructor \<open>np.random.RandomState\<close> and the method \<open>randint\<close> belong to
  numpy and are parameters of the model.
\<close>

record 'r sampler =
  sampler_random :: "'r option"

text \<open>Truth value of the argument: \<open>None\<close> is false, and a \<open>RandomState\<close> object
  defines neither \<open>__bool__\<close> nor \<open>__len__\<close>, so it is true.\<close>

fun truthy :: "'r option \<Rightarrow> bool" where
  "truthy None = False"
| "truthy (Some _) = True"

text \<open>The attribute access \<open>random.randint\<close>, which fails on \<open>None\<close>.\<close>

fun call_randint :: "('r \<Rightarrow> int \<Rightarrow> int \<Rightarrow> int) \<Rightarrow> 'r option \<Rightarrow> int \<Rightarrow> int \<Rightarrow> pyerror + int" where
  "call_randint randint None lo hi =
     Inl (AttributeError ''NoneType object has no attribute randint'')"
| "call_randint randint (Some r) lo hi = Inr (randint r lo hi)"

definition Sampler_initialize ::
  "(int \<Rightarrow> 'r) \<Rightarrow> ('r \<Rightarrow> int \<Rightarrow> int \<Rightarrow> int) \<Rightarrow> 'r sampler \<Rightarrow> 'r option \<Rightarrow> pyerror + 'r sampler" where
  "Sampler_initialize RandomState randint self random =
     (if truthy random then Inr (self\<lparr>sampler_random := random\<rparr>)
      else (case call_randint randint random 0 (2 ^ 31) of
              Inl e \<Rightarrow> Inl e
            | Inr seed \<Rightarrow> Inr (self\<lparr>sampler_random := Some (RandomState seed)\<rparr>)))"

section \<open>xpmir/neural/dual.py: validation of dense scorers\<close>

text \<open>
  The only part of a \<open>TextEncoder\<close> that validation reads is the result of
  \<open>encoder.static()\<close>.
\<close>

record text_encoder =
  static :: bool

text \<open>
  \<open>Dense.__validate__\<close> first calls \<open>super().__validate__()\<close>, which is defined
  outside the modelled files: its outcome is the parameter \<open>super_validate\<close>. Then
  \<open>assert not self.encoder.static(), "The vocabulary should be learnable"\<close>.
\<close>

definition Dense_validate :: "pyerror + unit \<Rightarrow> text_encoder \<Rightarrow> pyerror + unit" where
  "Dense_validate super_validate encoder =
     (case super_validate of
        Inl e \<Rightarrow> Inl e
      | Inr _ \<Rightarrow>
          if static encoder then Inl (AssertionError ''The vocabulary should be learnable'')
          else Inr ())"

text \<open>
  \<open>DotDense.__validate__\<close>: its \<open>super().__validate__()\<close> is \<open>Dense.__validate__\<close>,
  followed by the same assertion once more.
\<close>

definition DotDense_validate :: "pyerror + unit \<Rightarrow> text_encoder \<Rightarrow> pyerror + unit" where
  "DotDense_validate super_validate encoder =
     (case Dense_validate super_validate encoder of
        Inl e \<Rightarrow> Inl e
      | Inr _ \<Rightarrow>
          if static encoder then Inl (AssertionError ''The vocabulary should be learnable'')
          else Inr ())"

text \<open>The two scorer classes, and \<open>__validate__\<close> as each of them resolves it.\<close>

datatype dense_variant = Dense | DotDense

fun validate :: "dense_variant \<Rightarrow> pyerror + unit \<Rightarrow> text_encoder \<Rightarrow> pyerror + unit" where
  "validate Dense super_validate encoder = Dense_validate super_validate encoder"
| "validate DotDense super_validate encoder = DotDense_validate super_validate encoder"

text \<open>
  Modelled from the spec: the construction of a scorer and the start of training, which
  belong to the configuration framework and to the Learner and are not among the source
  files. "Construction must fail fast [...] if validation detects a frozen encoder", "at
  validation time, before any training step executes": constructing a scorer runs its
  \<open>__validate__\<close>, an exception raised there is the outcome of the construction, and
  the training steps run only on a constructed scorer. The training itself is the
  parameter \<open>train\<close>, acting on a state.
\<close>

record dense_scorer =
  scorer_variant :: dense_variant
  scorer_encoder :: text_encoder

definition construct :: "dense_variant \<Rightarrow> pyerror + unit \<Rightarrow> text_encoder \<Rightarrow> pyerror + dense_scorer" where
  "construct variant super_validate encoder =
     (case validate variant super_validate encoder of
        Inl e \<Rightarrow> Inl e
      | Inr _ \<Rightarrow> Inr \<lparr>scorer_variant = variant, scorer_encoder = encoder\<rparr>)"

definition construct_then_train ::
  "dense_variant \<Rightarrow> pyerror + unit \<Rightarrow> text_encoder
     \<Rightarrow> (dense_scorer \<Rightarrow> 't \<Rightarrow> (pyerror + 'r) \<times> 't) \<Rightarrow> 't \<Rightarrow> (pyerror + 'r) \<times> 't" where
  "construct_then_train variant super_validate encoder train st =
     (case construct variant super_validate encoder of
        Inl e \<Rightarrow> (Inl e, st)
      | Inr scorer \<Rightarrow> train scorer st)"

text \<open>A training for examples: the state counts the steps executed, here three.\<close>

fun three_steps :: "dense_scorer \<Rightarrow> nat \<Rightarrow> (pyerror + unit) \<times> nat" where
  "three_steps scorer steps = (Inr (), steps + 3)"

section \<open>Iterators\<close>

text \<open>
  A Python iterator is a state together with its \<open>__next__\<close>: from a state it either
  yields an item and moves to a new state, or it is exhausted (\<open>StopIteration\<close>,
  here \<open>None\<close>). The sequence may be finite or endless.
\<close>

type_synonym ('a, 's) iterator = "'s \<Rightarrow> ('a \<times> 's) option"

text \<open>The first \<open>k\<close> items an iterator emits from state \<open>s\<close> (fewer if it is
  exhausted before), and the state it is left in.\<close>

fun emitted :: "('a, 's) iterator \<Rightarrow> nat \<Rightarrow> 's \<Rightarrow> 'a list" where
  "emitted nxt 0 s = []"
| "emitted nxt (Suc k) s =
     (case nxt s of None \<Rightarrow> [] | Some (x, s') \<Rightarrow> x # emitted nxt k s')"

fun advance :: "('a, 's) iterator \<Rightarrow> nat \<Rightarrow> 's \<Rightarrow> 's" where
  "advance nxt 0 s = s"
| "advance nxt (Suc k) s =
     (case nxt s of None \<Rightarrow> s | Some (x, s') \<Rightarrow> advance nxt k s')"

text \<open>The iterator of a Python list: the state is what is left of the list.\<close>

fun list_next :: "('a, 'a list) iterator" where
  "list_next [] = None"
| "list_next (x # xs) = Some (x, xs)"

section \<open>xpmir/letor/trainers/pairwise.py: PairwiseTrainer.iter_batches\<close>

text \<open>
  The inner loop \<open>for _, record in zip(range(self.batch_size), it): batch.add(record)\<close>.
  \<open>zip\<close> asks \<open>range\<close> first and stops when it is exhausted, without touching
  \<open>it\<close>; otherwise it asks \<open>it\<close> and stops when that is exhausted. The first
  argument counts what is left of the range, \<open>batch\<close> is the batch built so far.
\<close>

fun zip_range_add :: "('a, 's) iterator \<Rightarrow> nat \<Rightarrow> 'a list \<Rightarrow> 's \<Rightarrow> 'a list \<times> 's" where
  "zip_range_add it 0 batch s = (batch, s)"
| "zip_range_add it (Suc k) batch s =
     (case it s of
        None \<Rightarrow> (batch, s)
      | Some (record, s') \<Rightarrow> zip_range_add it k (batch @ [record]) s')"

text \<open>
  The generator \<open>iter_batches\<close> is itself an iterator over the state of \<open>it\<close>: each
  \<open>next\<close> runs one round of \<open>while True\<close>, from an empty batch to the \<open>yield\<close>.
  \<open>range(batch_size)\<close> is empty for a negative \<open>batch_size\<close>.
\<close>

definition iter_batches :: "int \<Rightarrow> ('a, 's) iterator \<Rightarrow> ('a list, 's) iterator" where
  "iter_batches batch_size it s = Some (zip_range_add it (nat batch_size) [] s)"

section \<open>Scores and tensors\<close>

text \<open>
  A score as the ranker returns it: a finite number, an infinity or NaN. Arithmetic on
  finite scores is that of the real numbers; the rounding of the float format is not
  modelled.
\<close>

datatype fp = Fin real | PInf | NInf | NaN

fun isnan :: "fp \<Rightarrow> bool" where
  "isnan NaN = True"
| "isnan _ = False"

fun isinf :: "fp \<Rightarrow> bool" where
  "isinf PInf = True"
| "isinf NInf = True"
| "isinf _ = False"

text \<open>The comparison \<open>a > b\<close> of two scores; any comparison with NaN is false.\<close>

fun fp_gt :: "fp \<Rightarrow> fp \<Rightarrow> bool" where
  "fp_gt NaN _ = False"
| "fp_gt _ NaN = False"
| "fp_gt (Fin a) (Fin b) = (b < a)"
| "fp_gt (Fin _) NInf = True"
| "fp_gt (Fin _) PInf = False"
| "fp_gt PInf (Fin _) = True"
| "fp_gt PInf NInf = True"
| "fp_gt PInf PInf = False"
| "fp_gt NInf _ = False"

text \<open>The value of a finite score (0 stands in for the others, where it is never read).\<close>

fun fp_value :: "fp \<Rightarrow> real" where
  "fp_value (Fin x) = x"
| "fp_value _ = 0"

text \<open>
  A 2-D tensor of shape \<open>(length rows, width)\<close>; every row of a well-formed one has
  \<open>width\<close> entries. A 3-D tensor of shape \<open>(length items, dim1, dim2)\<close>.
\<close>

record 'a matrix =
  width :: nat
  rows :: "'a list list"

definition wf_matrix :: "'a matrix \<Rightarrow> bool" where
  "wf_matrix m = (\<forall>r \<in> set (rows m). length r = width m)"

definition map_matrix :: "('a \<Rightarrow> 'b) \<Rightarrow> 'a matrix \<Rightarrow> 'b matrix" where
  "map_matrix f m = \<lparr>width = width m, rows = map (map f) (rows m)\<rparr>"

record 'a tensor3 =
  dim1 :: nat
  dim2 :: nat
  items :: "'a list list list"

text \<open>\<open>t.mean()\<close> over all entries, given flattened: NaN for a tensor with no entry.\<close>

definition mean :: "real list \<Rightarrow> fp" where
  "mean xs = (if xs = [] then NaN else Fin (sum_list xs / real (length xs)))"

text \<open>
  A binary operation between the slices \<open>t[:, :1]\<close> and \<open>t[:, 1:]\<close> of one row:
  the single first entry is broadcast against each of the others. A row of width 0
  or 1 gives no entry.
\<close>

definition first_against_rest :: "('a \<Rightarrow> 'a \<Rightarrow> 'b) \<Rightarrow> 'a list \<Rightarrow> 'b list" where
  "first_against_rest f r = concat (map (\<lambda>p. map (f p) (drop 1 r)) (take 1 r))"

text \<open>The slice \<open>t[:, j]\<close> of a 2-D tensor and \<open>t[:, i, j]\<close> of a 3-D tensor.\<close>

definition select_column :: "nat \<Rightarrow> 'a matrix \<Rightarrow> pyerror + 'a list" where
  "select_column j m =
     (if j < width m then Inr (map (\<lambda>r. r ! j) (rows m))
      else Inl (IndexError ''index out of bounds for dimension 1''))"

definition select_entry :: "nat \<Rightarrow> nat \<Rightarrow> 'a tensor3 \<Rightarrow> pyerror + 'a list" where
  "select_entry i j t =
     (if \<not> i < dim1 t then Inl (IndexError ''index out of bounds for dimension 1'')
      else if \<not> j < dim2 t then Inl (IndexError ''index out of bounds for dimension 2'')
      else Inr (map (\<lambda>x. x ! i ! j) (items t)))"

definition softmax :: "real list \<Rightarrow> real list" where
  "softmax r = map (\<lambda>x. exp x / sum_list (map exp r)) r"

definition log_softmax :: "real list \<Rightarrow> real list" where
  "log_softmax r = map (\<lambda>x. x - ln (sum_list (map exp r))) r"

definition relu :: "real \<Rightarrow> real" where
  "relu x = max 0 x"

section \<open>xpmir/letor/trainers/pairwise.py: the pairwise losses\<close>

text \<open>The score tensor a loss receives: 2-D as the trainer builds it, or 3-D.\<close>

datatype score_tensor = Scores2 "real matrix" | Scores3 "real tensor3"

text \<open>\<open>t.log_softmax(dim=2)\<close>: a 2-D tensor has no dimension 2.\<close>

definition log_softmax_dim2 :: "score_tensor \<Rightarrow> pyerror + real tensor3" where
  "log_softmax_dim2 t =
     (case t of
        Scores2 m \<Rightarrow> Inl (IndexError ''Dimension out of range'')
      | Scores3 u \<Rightarrow> Inr (u\<lparr>items := map (map log_softmax) (items u)\<rparr>))"

definition negate :: "real tensor3 \<Rightarrow> real tensor3" where
  "negate u = u\<lparr>items := map (map (map uminus)) (items u)\<rparr>"

text \<open>
  \<open>CrossEntropyLoss.compute\<close>: \<open>F.cross_entropy\<close> against the target class 0 of every
  row, mean over the rows.
\<close>

definition CrossEntropyLoss_compute :: "real matrix \<Rightarrow> pyerror + fp" where
  "CrossEntropyLoss_compute rel_scores_by_record =
     (case select_column 0 (rel_scores_by_record
             \<lparr>rows := map log_softmax (rows rel_scores_by_record)\<rparr>) of
        Inl e \<Rightarrow> Inl e
      | Inr lp \<Rightarrow> Inr (mean (map uminus lp)))"

text \<open>
  \<open>NogueiraCrossEntropyLoss.compute\<close>:
  \<open>log_probs = -rel_scores_by_record.log_softmax(dim=2)\<close>, then
  \<open>(log_probs[:, 0, 0] + log_probs[:, 1, 1]).mean()\<close>.
\<close>

definition NogueiraCrossEntropyLoss_compute :: "score_tensor \<Rightarrow> pyerror + fp" where
  "NogueiraCrossEntropyLoss_compute rel_scores_by_record =
     (case log_softmax_dim2 rel_scores_by_record of
        Inl e \<Rightarrow> Inl e
      | Inr ls \<Rightarrow>
          (let log_probs = negate ls in
           case select_entry 0 0 log_probs of
             Inl e \<Rightarrow> Inl e
           | Inr a \<Rightarrow>
               (case select_entry 1 1 log_probs of
                  Inl e \<Rightarrow> Inl e
                | Inr b \<Rightarrow> Inr (mean (map2 (+) a b)))))"

text \<open>
  \<open>SoftmaxLoss.compute\<close>:
  \<open>torch.mean(1.0 - F.softmax(rel_scores_by_record, dim=1)[:, 0])\<close>.
\<close>

definition SoftmaxLoss_compute :: "real matrix \<Rightarrow> pyerror + fp" where
  "SoftmaxLoss_compute rel_scores_by_record =
     (case select_column 0 (rel_scores_by_record
             \<lparr>rows := map softmax (rows rel_scores_by_record)\<rparr>) of
        Inl e \<Rightarrow> Inl e
      | Inr p \<Rightarrow> Inr (mean (map (\<lambda>x. 1 - x) p)))"

text \<open>
  \<open>HingeLoss\<close> with its parameter \<open>margin\<close> (default 1.0); \<open>compute\<close> is
  \<open>F.relu(self.margin - s[:, :1] + s[:, 1:]).mean()\<close>.
\<close>

record HingeLoss =
  margin :: real

definition HingeLoss_default :: HingeLoss where
  "HingeLoss_default = \<lparr>margin = 1\<rparr>"

definition HingeLoss_compute :: "HingeLoss \<Rightarrow> real matrix \<Rightarrow> fp" where
  "HingeLoss_compute self rel_scores_by_record =
     mean (concat (map (first_against_rest (\<lambda>p n. relu (margin self - p + n)))
                       (rows rel_scores_by_record)))"

text \<open>\<open>pointwise.compute\<close>, the same two statements as the Nogueira loss.\<close>

definition pointwise_compute :: "score_tensor \<Rightarrow> pyerror + fp" where
  "pointwise_compute rel_scores_by_record =
     (case log_softmax_dim2 rel_scores_by_record of
        Inl e \<Rightarrow> Inl e
      | Inr ls \<Rightarrow>
          (let log_probs = negate ls in
           case select_entry 0 0 log_probs of
             Inl e \<Rightarrow> Inl e
           | Inr a \<Rightarrow>
               (case select_entry 1 1 log_probs of
                  Inl e \<Rightarrow> Inl e
                | Inr b \<Rightarrow> Inr (mean (map2 (+) a b)))))"

text \<open>The loss configured in a trainer, and the dispatch of \<open>self.lossfn.compute\<close>.\<close>

datatype pairwise_loss =
    CrossEntropy
  | NogueiraCrossEntropy
  | Softmax
  | Hinge HingeLoss
  | Pointwise

fun lossfn_compute :: "pairwise_loss \<Rightarrow> real matrix \<Rightarrow> pyerror + fp" where
  "lossfn_compute CrossEntropy s = CrossEntropyLoss_compute s"
| "lossfn_compute NogueiraCrossEntropy s = NogueiraCrossEntropyLoss_compute (Scores2 s)"
| "lossfn_compute Softmax s = SoftmaxLoss_compute s"
| "lossfn_compute (Hinge h) s = Inr (HingeLoss_compute h s)"
| "lossfn_compute Pointwise s = pointwise_compute (Scores2 s)"

section \<open>xpmir/letor/trainers/pairwise.py: PairwiseTrainer\<close>

text \<open>
  \<open>PairwiseTrainer.acc\<close>: \<open>count = shape[0] * (shape[1] - 1)\<close>, then the number of
  true entries of \<open>s[:, :1] > s[:, 1:]\<close>, as a float, divided by \<open>count\<close>.
\<close>

definition float_div :: "real \<Rightarrow> int \<Rightarrow> fp" where
  "float_div x c =
     (if c \<noteq> 0 then Fin (x / real_of_int c)
      else if x = 0 then NaN else if 0 < x then PInf else NInf)"

definition acc :: "fp matrix \<Rightarrow> fp" where
  "acc scores_by_record =
     (let count = int (length (rows scores_by_record)) * (int (width scores_by_record) - 1);
          hits = concat (map (\<lambda>r. filter (\<lambda>b. b) (first_against_rest fp_gt r))
                             (rows scores_by_record))
      in float_div (real (length hits)) count)"

text \<open>
  \<open>rel_scores.reshape(self.batch_size, 2)\<close> of the scores in row-major order: the
  number of scores must be \<open>2 * batch_size\<close>; a \<open>batch_size\<close> of -1 is inferred
  from an even number of scores (no score gives no row).
\<close>

fun pairs :: "'a list \<Rightarrow> 'a list list" where
  "pairs (x # y # xs) = [x, y] # pairs xs"
| "pairs _ = []"

definition reshape_pairs :: "int \<Rightarrow> 'a list \<Rightarrow> pyerror + 'a matrix" where
  "reshape_pairs batch_size xs =
     (if (0 \<le> batch_size \<and> int (length xs) = batch_size * 2)
         \<or> (batch_size = - 1 \<and> even (length xs))
      then Inr \<lparr>width = 2, rows = pairs xs\<rparr>
      else Inl (RuntimeError ''shape is invalid for input''))"

text \<open>
  The state of a trainer that \<open>train_batch\<close> touches: the state of the record
  iterator behind \<open>self.train_iter\<close> and the messages sent to \<open>self.logger.error\<close>.
\<close>

record 's trainer =
  train_iter :: 's
  logged_errors :: "string list"

text \<open>
  \<open>PairwiseTrainer.train_batch\<close>. The ranker is a parameter: it returns the scores of
  a batch or raises. The result is the loss with the reported \<open>loss\<close> and \<open>acc\<close>, or
  the exception raised; the trainer's state comes second.
\<close>

definition train_batch ::
  "('a, 's) iterator \<Rightarrow> ('a list \<Rightarrow> pyerror + fp list) \<Rightarrow> pairwise_loss \<Rightarrow> int
     \<Rightarrow> 's trainer \<Rightarrow> (pyerror + fp \<times> fp \<times> fp) \<times> 's trainer" where
  "train_batch it ranker lossfn batch_size self =
     (case iter_batches batch_size it (train_iter self) of
        None \<Rightarrow> (Inl StopIteration, self)
      | Some (input_data, s') \<Rightarrow>
          (let self1 = self\<lparr>train_iter := s'\<rparr> in
           case ranker input_data of
             Inl e \<Rightarrow> (Inl e, self1)
           | Inr rel_scores \<Rightarrow>
               if list_ex isnan rel_scores \<or> list_ex isinf rel_scores
               then (Inl (SystemExit 1),
                     self1\<lparr>logged_errors := logged_errors self1
                              @ [''nan or inf relevance score detected. Aborting.'']\<rparr>)
               else
                 (case reshape_pairs batch_size rel_scores of
                    Inl e \<Rightarrow> (Inl e, self1)
                  | Inr pairwise_scores \<Rightarrow>
                      (case lossfn_compute lossfn (map_matrix fp_value pairwise_scores) of
                         Inl e \<Rightarrow> (Inl e, self1)
                       | Inr loss \<Rightarrow> (Inr (loss, loss, acc pairwise_scores), self1)))))"

text \<open>
  Modelled from the spec: the step loop of the Learner, which is not among the source
  files ("run \<open>steps_per_epoch\<close> Trainer steps"; a fatal condition "terminates the
  entire Learner run; no partial-epoch retry is attempted"). It calls \<open>train_batch\<close>
  \<open>n\<close> times and collects the results; an exception raised by a step ends the loop.
\<close>

fun train_steps ::
  "('a, 's) iterator \<Rightarrow> ('a list \<Rightarrow> pyerror + fp list) \<Rightarrow> pairwise_loss \<Rightarrow> int
     \<Rightarrow> nat \<Rightarrow> 's trainer \<Rightarrow> (pyerror + (fp \<times> fp \<times> fp) list) \<times> 's trainer" where
  "train_steps it ranker lossfn batch_size 0 self = (Inr [], self)"
| "train_steps it ranker lossfn batch_size (Suc n) self =
     (case train_batch it ranker lossfn batch_size self of
        (Inl e, self') \<Rightarrow> (Inl e, self')
      | (Inr r, self') \<Rightarrow>
          (case train_steps it ranker lossfn batch_size n self' of
             (Inl e, self'') \<Rightarrow> (Inl e, self'')
           | (Inr rs, self'') \<Rightarrow> (Inr (r # rs), self'')))"

section \<open>xpmir/neural/dual.py: Dense.score_pairs\<close>

text \<open>
  \<open>queries.unsqueeze(1)\<close> turns a \<open>(B, D)\<close> matrix into a \<open>(B, 1, D)\<close> tensor and
  \<open>documents.unsqueeze(2)\<close> turns one into a \<open>(B, D, 1)\<close> tensor.
\<close>

definition unsqueeze1 :: "'a matrix \<Rightarrow> 'a tensor3" where
  "unsqueeze1 m = \<lparr>dim1 = 1, dim2 = width m, items = map (\<lambda>r. [r]) (rows m)\<rparr>"

definition unsqueeze2 :: "'a matrix \<Rightarrow> 'a tensor3" where
  "unsqueeze2 m = \<lparr>dim1 = width m, dim2 = 1, items = map (\<lambda>r. map (\<lambda>x. [x]) r) (rows m)\<rparr>"

text \<open>The product of a matrix with \<open>k\<close> columns and one with \<open>k\<close> rows and \<open>p\<close>
  columns, both as lists of rows.\<close>

definition mat_mul :: "nat \<Rightarrow> nat \<Rightarrow> real list list \<Rightarrow> real list list \<Rightarrow> real list list" where
  "mat_mul k p a b = map (\<lambda>row. map (\<lambda>j. \<Sum>i\<leftarrow>[0..<k]. row ! i * b ! i ! j) [0..<p]) a"

text \<open>
  The operator \<open>@\<close> on two 3-D tensors: a batched matrix product. The inner
  dimensions must agree; the batch dimensions must be equal, or one of them is 1 and
  is broadcast.
\<close>

definition broadcast_batch :: "'a list \<Rightarrow> 'b list \<Rightarrow> pyerror + ('a \<times> 'b) list" where
  "broadcast_batch xs ys =
     (if length xs = length ys then Inr (zip xs ys)
      else if length xs = 1 then Inr (map (\<lambda>y. (hd xs, y)) ys)
      else if length ys = 1 then Inr (map (\<lambda>x. (x, hd ys)) xs)
      else Inl (RuntimeError ''The size of tensor a must match the size of tensor b''))"

definition matmul3 :: "real tensor3 \<Rightarrow> real tensor3 \<Rightarrow> pyerror + real tensor3" where
  "matmul3 a b =
     (if dim2 a \<noteq> dim1 b
      then Inl (RuntimeError ''mat1 and mat2 shapes cannot be multiplied'')
      else (case broadcast_batch (items a) (items b) of
              Inl e \<Rightarrow> Inl e
            | Inr ps \<Rightarrow>
                Inr \<lparr>dim1 = dim1 a, dim2 = dim2 b,
                     items = map (\<lambda>(x, y). mat_mul (dim2 a) (dim2 b) x y) ps\<rparr>))"

text \<open>
  \<open>squeeze(-1)\<close> where the last dimension has size 1, as it has twice in
  \<open>score_pairs\<close>: from \<open>(B, 1, 1)\<close> to \<open>(B, 1)\<close>, then to \<open>(B)\<close>.
\<close>

definition squeeze_last3 :: "'a tensor3 \<Rightarrow> 'a matrix" where
  "squeeze_last3 t = \<lparr>width = dim1 t, rows = map (map hd) (items t)\<rparr>"

definition squeeze_last2 :: "'a matrix \<Rightarrow> 'a list" where
  "squeeze_last2 m = map hd (rows m)"

text \<open>
  Modelled from the spec: the training context and its hook registry, which are not
  among the source files. Hooks are "registered by capability type" in "an explicit
  per-context mapping from hook-category tag to an ordered list of callables", and
  \<open>info.hooks(category)\<close> is that list, in registration order. The rest of the
  context (losses, metrics) is \<open>ctx_state\<close>.
\<close>

record ('h, 'u) trainer_context =
  hooksmap :: "string \<Rightarrow> 'h list"
  ctx_state :: 'u

definition hooks :: "('h, 'u) trainer_context \<Rightarrow> string \<Rightarrow> 'h list" where
  "hooks info category = hooksmap info category"

text \<open>
  Modelled from the spec: the helper \<open>foreach(iterable, fn)\<close> of \<open>xpmir.utils\<close>,
  which is not among the source files: it calls \<open>fn\<close> on each item in order
  ("invoked in registration order; hook failures propagate (not swallowed)"). Here
  \<open>fn\<close> acts on a state; the result is the list of the items \<open>fn\<close> has been
  called on, the state reached, and the exception that ended the loop, if any.
\<close>

fun foreach :: "'h list \<Rightarrow> ('h \<Rightarrow> 'c \<Rightarrow> pyerror + 'c) \<Rightarrow> 'c \<Rightarrow> 'h list \<times> 'c \<times> pyerror option" where
  "foreach [] fn c = ([], c, None)"
| "foreach (h # hs) fn c =
     (case fn h c of
        Inl e \<Rightarrow> ([h], c, Some e)
      | Inr c' \<Rightarrow> (case foreach hs fn c' of (called, c'', r) \<Rightarrow> (h # called, c'', r)))"

text \<open>
  \<open>DualVectorListener.__call__\<close> of the base class:
  \<open>raise NotImplementedError(f"__call__ in {self.__class__}")\<close>.
\<close>

definition DualVectorListener_call ::
  "'c \<Rightarrow> real matrix \<Rightarrow> real matrix \<Rightarrow> pyerror + 'c" where
  "DualVectorListener_call info queries documents =
     Inl (NotImplementedError ''__call__ in DualVectorListener'')"

text \<open>
  What a call of \<open>score_pairs\<close> does, in the order in which it does it: the scores
  are computed, a hook is called with two arguments.
\<close>

datatype 'h event =
    ScoresComputed "real list"
  | HookCalled 'h "real matrix" "real matrix"

text \<open>
  The outcome of a call of \<open>score_pairs\<close>: the events up to the return or the raise,
  the context afterwards, and the scores returned or the exception raised.
\<close>

record ('h, 'u) score_pairs_result =
  events :: "'h event list"
  info_after :: "('h, 'u) trainer_context option"
  returned :: "pyerror + real list"

text \<open>
  \<open>Dense.score_pairs(queries, documents, info)\<close>. The behaviour of a hook is the
  parameter \<open>call_hook\<close>: \<open>call_hook hook info queries documents\<close> is the context
  after \<open>hook(info, queries, documents)\<close>, or the exception it raises.
\<close>

definition score_pairs ::
  "('h \<Rightarrow> ('h, 'u) trainer_context \<Rightarrow> real matrix \<Rightarrow> real matrix
      \<Rightarrow> pyerror + ('h, 'u) trainer_context)
   \<Rightarrow> real matrix \<Rightarrow> real matrix \<Rightarrow> ('h, 'u) trainer_context option
   \<Rightarrow> ('h, 'u) score_pairs_result" where
  "score_pairs call_hook queries documents info =
     (case matmul3 (unsqueeze1 queries) (unsqueeze2 documents) of
        Inl e \<Rightarrow> \<lparr>events = [], info_after = info, returned = Inl e\<rparr>
      | Inr product \<Rightarrow>
          (let scores = squeeze_last2 (squeeze_last3 product) in
           case info of
             None \<Rightarrow>
               \<lparr>events = [ScoresComputed scores], info_after = None, returned = Inr scores\<rparr>
           | Some ctx \<Rightarrow>
               (case foreach (hooks ctx ''DualVectorListener'')
                       (\<lambda>hook c. call_hook hook c queries documents) ctx of
                  (called, ctx', Some e) \<Rightarrow>
                    \<lparr>events = ScoresComputed scores
                        # map (\<lambda>hook. HookCalled hook queries documents) called,
                     info_after = Some ctx', returned = Inl e\<rparr>
                | (called, ctx', None) \<Rightarrow>
                    \<lparr>events = ScoresComputed scores
                        # map (\<lambda>hook. HookCalled hook queries documents) called,
                     info_after = Some ctx', returned = Inr scores\<rparr>)))"

text \<open>
  Two hooks for examples: hook 0 is a \<open>DualVectorListener\<close> of the base class,
  every other hook returns without touching the context. Both are registered, 0 first.
  The matrices have one row, of one and of two entries.
\<close>

fun base_then_idle ::
  "nat \<Rightarrow> (nat, unit) trainer_context \<Rightarrow> real matrix \<Rightarrow> real matrix
     \<Rightarrow> pyerror + (nat, unit) trainer_context" where
  "base_then_idle 0 info queries documents = DualVectorListener_call info queries documents"
| "base_then_idle (Suc _) info queries documents = Inr info"

fun idle_hook ::
  "nat \<Rightarrow> (nat, unit) trainer_context \<Rightarrow> real matrix \<Rightarrow> real matrix
     \<Rightarrow> pyerror + (nat, unit) trainer_context" where
  "idle_hook _ info queries documents = Inr info"

text \<open>
  A hook whose outcome depends on the context, as that of \<open>FlopsRegularizer\<close> does
  with its \<open>assert info.metrics is not None\<close>: the state of the context says
  whether the metrics are there.
\<close>

fun metrics_hook ::
  "nat \<Rightarrow> (nat, bool) trainer_context \<Rightarrow> real matrix \<Rightarrow> real matrix
     \<Rightarrow> pyerror + (nat, bool) trainer_context" where
  "metrics_hook _ info queries documents =
     (if ctx_state info then Inr info else Inl (AssertionError []))"

definition metrics_context :: "(nat, bool) trainer_context" where
  "metrics_context = \<lparr>hooksmap = (\<lambda>category. [0, 1]), ctx_state = True\<rparr>"

fun two_hooks :: "string \<Rightarrow> nat list" where
  "two_hooks category = (if category = ''DualVectorListener'' then [0, 1] else [])"

definition two_hooks_context :: "(nat, unit) trainer_context" where
  "two_hooks_context = \<lparr>hooksmap = two_hooks, ctx_state = ()\<rparr>"

definition one_by_one :: "real matrix" where
  "one_by_one = \<lparr>width = 1, rows = [[1]]\<rparr>"

definition one_by_two :: "real matrix" where
  "one_by_two = \<lparr>width = 2, rows = [[1, 1]]\<rparr>"

section \<open>xpmir/evaluation.py: the run file written by Evaluate.execute\<close>

text \<open>Python's \<open>str\<close> of a non-negative integer: its decimal digits.\<close>

definition digit_char :: "nat \<Rightarrow> char" where
  "digit_char d = ''0123456789'' ! d"

fun str_nat :: "nat \<Rightarrow> string" where
  "str_nat n = (if n < 10 then [digit_char n] else str_nat (n div 10) @ [digit_char (n mod 10)])"

declare str_nat.simps [simp del]

text \<open>A retrieved document \<open>sd\<close>, with \<open>sd.docid\<close> and \<open>sd.score\<close>.\<close>

record 'sc scored_document =
  docid :: string
  score :: 'sc

text \<open>
  The string written by
  \<open>fp.write(f"""{qid} Q0 {sd.docid} {rank+1} {sd.score} run\n""")\<close>;
  the rendering of the score is a parameter.
\<close>

definition run_line :: "('sc \<Rightarrow> string) \<Rightarrow> string \<Rightarrow> nat \<Rightarrow> 'sc scored_document \<Rightarrow> string" where
  "run_line str_score qid rank sd =
     qid @ '' Q0 '' @ docid sd @ '' '' @ str_nat (rank + 1) @ '' '' @ str_score (score sd)
       @ '' run'' @ [CHR 0x0A]"

text \<open>
  The writes of the loops
  \<open>for qid, query in topics: for rank, sd in enumerate(retrieve(query)): fp.write(...)\<close>,
  in order: first those of one query, then those of all topics.
\<close>

definition query_writes :: "('sc \<Rightarrow> string) \<Rightarrow> string \<Rightarrow> 'sc scored_document list \<Rightarrow> string list" where
  "query_writes str_score qid retrieved =
     map (\<lambda>(rank, sd). run_line str_score qid rank sd) (enumerate 0 retrieved)"

definition Evaluate_execute_writes ::
  "('sc \<Rightarrow> string) \<Rightarrow> ('q \<Rightarrow> 'sc scored_document list) \<Rightarrow> (string \<times> 'q) list \<Rightarrow> string list" where
  "Evaluate_execute_writes str_score retrieve topics =
     concat (map (\<lambda>(qid, query). query_writes str_score qid (retrieve query)) topics)"

text \<open>Fields joined by single spaces, as the run file format lists them.\<close>

fun join_spaces :: "string list \<Rightarrow> string" where
  "join_spaces [] = []"
| "join_spaces [f] = f"
| "join_spaces (f # g # fs) = f @ '' '' @ join_spaces (g # fs)"

section \<open>Properties\<close>

subsection \<open>Sampler.initialize\<close>

text \<open>
  Claim C9. \<open>Sampler.initialize\<close> raises exactly when its \<open>random\<close> argument is
  \<open>None\<close> (the fallback dereferences \<open>None\<close> and raises \<open>AttributeError\<close>, so it
  never builds a fresh \<open>RandomState\<close>); given an object \<open>r\<close>, it returns and
  \<open>self.random\<close> is that very object.
\<close>

theorem Sampler_initialize_raises_iff_None:
  "(isl (Sampler_initialize RandomState randint self random) \<longleftrightarrow> random = None)
   \<and> (random = None \<longrightarrow>
        Sampler_initialize RandomState randint self random
          = Inl (AttributeError ''NoneType object has no attribute randint''))
   \<and> (\<forall>r. random = Some r \<longrightarrow>
        Sampler_initialize RandomState randint self random
          = Inr (self\<lparr>sampler_random := Some r\<rparr>))"
  by (cases random) (simp_all add: Sampler_initialize_def)

theorem Sampler_initialize_witness:
  "isl (Sampler_initialize (\<lambda>seed. nat seed) (\<lambda>r lo hi. lo) \<lparr>sampler_random = None\<rparr> None)
   \<and> Sampler_initialize (\<lambda>seed. nat seed) (\<lambda>r lo hi. lo) \<lparr>sampler_random = None\<rparr> (Some 42)
       = Inr \<lparr>sampler_random = Some (42::nat)\<rparr>"
  using Sampler_initialize_raises_iff_None
          [of "\<lambda>seed. nat seed" "\<lambda>r lo hi. lo" "\<lparr>sampler_random = None\<rparr>" None]
        Sampler_initialize_raises_iff_None
          [of "\<lambda>seed. nat seed" "\<lambda>r lo hi. lo" "\<lparr>sampler_random = None\<rparr>" "Some 42"]
  by simp

subsection \<open>Validation of dense scorers\<close>

text \<open>
  Claim C2, as stated, asks for a \<open>ConfigurationError\<close>. With a frozen encoder the
  validation of \<open>Dense\<close> raises \<open>AssertionError\<close>, whose class is not
  \<open>ConfigurationError\<close>.
\<close>

theorem Dense_validate_frozen_not_ConfigurationError:
  "Dense_validate (Inr ()) \<lparr>static = True\<rparr>
     = Inl (AssertionError ''The vocabulary should be learnable'')
   \<and> error_class (AssertionError ''The vocabulary should be learnable'')
       \<noteq> ''ConfigurationError''"
  by (simp add: Dense_validate_def)

text \<open>
  Claim C2, amended only in the class of the exception. Constructing a \<open>Dense\<close> or a
  \<open>DotDense\<close> scorer whose encoder is static fails at validation time with an
  \<open>AssertionError\<close>, before any training step executes: the training is not run and
  its state is as it was. Validation succeeds when the encoder is learnable, and
  the training then runs on the constructed scorer. The inherited validation is taken
  to pass; should it raise instead, the construction with a static encoder fails all
  the same and the training is not run.
\<close>

theorem construct_frozen_AssertionError:
  "(static encoder \<longrightarrow>
      Dense_validate (Inr ()) encoder
        = Inl (AssertionError ''The vocabulary should be learnable'')
      \<and> DotDense_validate (Inr ()) encoder
        = Inl (AssertionError ''The vocabulary should be learnable'')
      \<and> construct variant (Inr ()) encoder
        = Inl (AssertionError ''The vocabulary should be learnable'')
      \<and> construct_then_train variant (Inr ()) encoder train st
        = (Inl (AssertionError ''The vocabulary should be learnable''), st)
      \<and> isl (construct variant super_validate encoder)
      \<and> isl (fst (construct_then_train variant super_validate encoder train st))
      \<and> snd (construct_then_train variant super_validate encoder train st) = st)
   \<and> (\<not> static encoder \<longrightarrow>
      Dense_validate (Inr ()) encoder = Inr ()
      \<and> DotDense_validate (Inr ()) encoder = Inr ()
      \<and> construct variant (Inr ()) encoder
        = Inr \<lparr>scorer_variant = variant, scorer_encoder = encoder\<rparr>
      \<and> construct_then_train variant (Inr ()) encoder train st
        = train \<lparr>scorer_variant = variant, scorer_encoder = encoder\<rparr> st)"
  by (cases variant; cases super_validate)
     (simp_all add: Dense_validate_def DotDense_validate_def construct_def
        construct_then_train_def)

theorem construct_frozen_AssertionError_witness:
  "construct_then_train Dense (Inr ()) \<lparr>static = True\<rparr> three_steps 0
     = (Inl (AssertionError ''The vocabulary should be learnable''), 0)
   \<and> construct_then_train DotDense (Inr ()) \<lparr>static = True\<rparr> three_steps 0
     = (Inl (AssertionError ''The vocabulary should be learnable''), 0)
   \<and> construct_then_train Dense (Inr ()) \<lparr>static = False\<rparr> three_steps 0 = (Inr (), 3)
   \<and> construct_then_train DotDense (Inr ()) \<lparr>static = False\<rparr> three_steps 0 = (Inr (), 3)"
  using construct_frozen_AssertionError
          [where encoder = "\<lparr>static = True\<rparr>" and variant = Dense
             and train = three_steps and st = 0]
        construct_frozen_AssertionError
          [where encoder = "\<lparr>static = True\<rparr>" and variant = DotDense
             and train = three_steps and st = 0]
        construct_frozen_AssertionError
          [where encoder = "\<lparr>static = False\<rparr>" and variant = Dense
             and train = three_steps and st = 0]
        construct_frozen_AssertionError
          [where encoder = "\<lparr>static = False\<rparr>" and variant = DotDense
             and train = three_steps and st = 0]
  by simp

subsection \<open>PairwiseTrainer.iter_batches\<close>

lemma zip_range_add_eq:
  "zip_range_add it k batch s = (batch @ emitted it k s, advance it k s)"
  by (induction k arbitrary: batch s) (auto split: option.splits)

lemma advance_exhausted: "it s = None \<Longrightarrow> advance it k s = s"
  by (cases k) auto

lemma emitted_exhausted: "it s = None \<Longrightarrow> emitted it k s = []"
  by (cases k) auto

lemma emitted_add:
  "emitted it (a + b) s = emitted it a s @ emitted it b (advance it a s)"
  by (induction a arbitrary: s) (auto split: option.splits simp: emitted_exhausted)

lemma advance_add:
  "advance it (a + b) s = advance it b (advance it a s)"
  by (induction a arbitrary: s) (auto split: option.splits simp: advance_exhausted)

lemma length_emitted_le: "length (emitted it k s) \<le> k"
  by (induction k arbitrary: s) (auto split: option.splits)

lemma batches_length: "length (emitted (iter_batches bs it) m s) = m"
  by (induction m arbitrary: s) (auto simp: iter_batches_def zip_range_add_eq)

lemma batches_nth:
  "i < m \<Longrightarrow> emitted (iter_batches bs it) m s ! i = emitted it (nat bs) (advance it (i * nat bs) s)"
proof (induction m arbitrary: s i)
  case 0 then show ?case by simp
next
  case (Suc m)
  show ?case
  proof (cases i)
    case 0 then show ?thesis by (simp add: iter_batches_def zip_range_add_eq)
  next
    case (Suc j)
    then have "j < m" using Suc.prems by simp
    from Suc.IH[OF this, of "advance it (nat bs) s"] Suc
    show ?thesis by (simp add: iter_batches_def zip_range_add_eq advance_add)
  qed
qed

lemma batches_concat:
  "concat (emitted (iter_batches bs it) m s) = emitted it (m * nat bs) s"
  by (induction m arbitrary: s) (auto simp: iter_batches_def zip_range_add_eq emitted_add)

lemma emitted_take: "emitted it a s = take a (emitted it (a + b) s)"
  using length_emitted_le[of it a s]
  by (induction a arbitrary: s) (auto split: option.splits)


lemma emitted_drop:
  "drop a (emitted it (a + b) s) = emitted it b (advance it a s)"
  by (induction a arbitrary: s) (auto split: option.splits simp: emitted_exhausted)

lemma batches_nth_slice:
  assumes "i < m"
  shows "emitted (iter_batches bs it) m s ! i
           = take (nat bs) (drop (i * nat bs) (emitted it (m * nat bs) s))"
proof -
  obtain r where m: "m = i + Suc r"
    using assms less_iff_Suc_add by auto
  have "m * nat bs = i * nat bs + (nat bs + r * nat bs)"
    by (simp add: m algebra_simps)
  then have "drop (i * nat bs) (emitted it (m * nat bs) s)
               = emitted it (nat bs + r * nat bs) (advance it (i * nat bs) s)"
    by (simp only: emitted_drop)
  then have "take (nat bs) (drop (i * nat bs) (emitted it (m * nat bs) s))
               = emitted it (nat bs) (advance it (i * nat bs) s)"
    by (simp only: emitted_take [symmetric])
  then show ?thesis
    using batches_nth [OF assms] by simp
qed

lemma batches_exhausted:
  "it s = None \<Longrightarrow> emitted (iter_batches bs it) k s = replicate k []"
  by (induction k) (auto simp: iter_batches_def zip_range_add_eq emitted_exhausted advance_exhausted)

lemma batches_full:
  assumes "length (emitted it (m * nat bs) s) = m * nat bs" "i < m"
  shows "length (emitted (iter_batches bs it) m s ! i) = nat bs"
proof -
  from assms(2) have "Suc i \<le> m" by simp
  then have "(i + 1) * nat bs \<le> m * nat bs" by (simp only: Suc_eq_plus1 mult_le_mono1)
  then have "(i + 1) * nat bs \<le> length (emitted it (m * nat bs) s)" using assms(1) by simp
  then show ?thesis
    unfolding batches_nth_slice [OF assms(2)]
    by (simp add: algebra_simps)
qed

text \<open>
  Claim C10. For every number \<open>m\<close> the generator yields \<open>m\<close> batches (it never
  stops). Their concatenation is what the record iterator emits in \<open>m * batch_size\<close>
  pulls, batch \<open>i\<close> being the slice of \<open>batch_size\<close> records from position
  \<open>i * batch_size\<close>: records come in emission order, none skipped, none twice. A batch
  has at most \<open>batch_size\<close> records, exactly \<open>batch_size\<close> while the iterator
  supplies them, and all batches are empty once the iterator is exhausted.
\<close>

theorem iter_batches_consecutive_batches:
  "length (emitted (iter_batches batch_size it) m s) = m
   \<and> concat (emitted (iter_batches batch_size it) m s) = emitted it (m * nat batch_size) s
   \<and> (\<forall>i<m. emitted (iter_batches batch_size it) m s ! i
          = take (nat batch_size) (drop (i * nat batch_size) (emitted it (m * nat batch_size) s)))
   \<and> (\<forall>i<m. int (length (emitted (iter_batches batch_size it) m s ! i)) \<le> max 0 batch_size)
   \<and> (length (emitted it (m * nat batch_size) s) = m * nat batch_size \<longrightarrow>
        (\<forall>i<m. length (emitted (iter_batches batch_size it) m s ! i) = nat batch_size))
   \<and> (it s = None \<longrightarrow> emitted (iter_batches batch_size it) m s = replicate m [])"
  using batches_length [of batch_size it m s] batches_concat [of batch_size it m s]
    batches_nth_slice [of _ m batch_size it s] batches_full [of it m batch_size s]
    batches_exhausted [of it s batch_size m]
  by auto

theorem iter_batches_witness:
  "emitted (iter_batches 2 list_next) 4 [1, 2, 3, 4, 5 :: nat] = [[1, 2], [3, 4], [5], []]
   \<and> length (emitted list_next (2 * nat 2) [1, 2, 3, 4, 5 :: nat]) = 2 * nat 2
   \<and> length (emitted (iter_batches 2 list_next) 2 [1, 2, 3, 4, 5 :: nat] ! 0) = nat 2
   \<and> length (emitted (iter_batches 2 list_next) 2 [1, 2, 3, 4, 5 :: nat] ! 1) = nat 2
   \<and> list_next ([] :: nat list) = None
   \<and> emitted (iter_batches 2 list_next) 3 ([] :: nat list) = replicate 3 []"
proof -
  have full: "length (emitted list_next (2 * nat 2) [1, 2, 3, 4, 5 :: nat]) = 2 * nat 2"
    by code_simp
  have b: "emitted (iter_batches 2 list_next) 4 [1, 2, 3, 4, 5 :: nat] = [[1, 2], [3, 4], [5], []]"
    by code_simp
  show ?thesis
    using full b iter_batches_consecutive_batches [of 2 list_next 2 "[1, 2, 3, 4, 5 :: nat]"]
      iter_batches_consecutive_batches [of 2 list_next 3 "[] :: nat list"]
    by simp
qed

subsection \<open>The run file of Evaluate.execute\<close>

lemma digit_char_not_newline: "d < 10 \<Longrightarrow> digit_char d \<noteq> CHR 0x0A"
proof -
  assume "d < 10"
  then have "d \<in> {0, 1, 2, 3, 4, 5, 6, 7, 8, 9}" by auto
  then show ?thesis by (auto simp: digit_char_def)
qed

lemma str_nat_no_newline: "CHR 0x0A \<notin> set (str_nat n)"
proof (induction n rule: str_nat.induct)
  case (1 n)
  show ?case
  proof (cases "n < 10")
    case True
    then show ?thesis using digit_char_not_newline [of n] by (subst str_nat.simps) auto
  next
    case False
    then show ?thesis
      using 1 digit_char_not_newline [of "n mod 10"] by (subst str_nat.simps) auto
  qed
qed

lemma query_writes_nth:
  "i < length retrieved \<Longrightarrow>
     query_writes str_score qid retrieved ! i
       = join_spaces [qid, ''Q0'', docid (retrieved ! i), str_nat (i + 1),
                      str_score (score (retrieved ! i)), ''run''] @ [CHR 0x0A]"
  by (simp add: query_writes_def nth_enumerate_eq run_line_def)

text \<open>
  Claim C8. The writes for one query are one per retrieved document, in retrieval order;
  write \<open>i\<close> (from 0) is the fields query id, \<open>Q0\<close>, document id, rank \<open>i + 1\<close>,
  score and the tag \<open>run\<close>, separated by single spaces and ended by a newline, so
  the first rank is 1 and ranks go up by one; when the query id, the document id and
  the score hold no newline, the write is one line. The file holds the writes of the
  queries in the order of the topics.
\<close>

theorem Evaluate_run_file_lines:
  "length (query_writes str_score qid retrieved) = length retrieved
   \<and> (\<forall>i < length retrieved.
         query_writes str_score qid retrieved ! i
           = join_spaces [qid, ''Q0'', docid (retrieved ! i), str_nat (i + 1),
                          str_score (score (retrieved ! i)), ''run''] @ [CHR 0x0A]
         \<and> (CHR 0x0A \<notin> set qid \<and> CHR 0x0A \<notin> set (docid (retrieved ! i))
              \<and> CHR 0x0A \<notin> set (str_score (score (retrieved ! i))) \<longrightarrow>
            CHR 0x0A \<notin> set (join_spaces [qid, ''Q0'', docid (retrieved ! i), str_nat (i + 1),
                          str_score (score (retrieved ! i)), ''run''])))
   \<and> str_nat (0 + 1) = ''1''
   \<and> Evaluate_execute_writes str_score retrieve (before @ (qid, query) # after)
       = Evaluate_execute_writes str_score retrieve before
         @ query_writes str_score qid (retrieve query)
         @ Evaluate_execute_writes str_score retrieve after"
proof (intro conjI allI impI)
  show "length (query_writes str_score qid retrieved) = length retrieved"
    by (simp add: query_writes_def)
  show "str_nat (0 + 1) = ''1''"
    by (simp add: str_nat.simps digit_char_def)
  show "Evaluate_execute_writes str_score retrieve (before @ (qid, query) # after)
       = Evaluate_execute_writes str_score retrieve before
         @ query_writes str_score qid (retrieve query)
         @ Evaluate_execute_writes str_score retrieve after"
    by (simp add: Evaluate_execute_writes_def)
next
  fix i assume "i < length retrieved"
  then show "query_writes str_score qid retrieved ! i
           = join_spaces [qid, ''Q0'', docid (retrieved ! i), str_nat (i + 1),
                          str_score (score (retrieved ! i)), ''run''] @ [CHR 0x0A]"
    by (rule query_writes_nth)
next
  fix i
  assume "CHR 0x0A \<notin> set qid \<and> CHR 0x0A \<notin> set (docid (retrieved ! i))
              \<and> CHR 0x0A \<notin> set (str_score (score (retrieved ! i)))"
  then show "CHR 0x0A \<notin> set (join_spaces [qid, ''Q0'', docid (retrieved ! i), str_nat (i + 1),
                          str_score (score (retrieved ! i)), ''run''])"
    using str_nat_no_newline [of "i + 1"] by simp
qed

theorem Evaluate_run_file_witness:
  "query_writes (\<lambda>sc. sc) ''q1'' [\<lparr>docid = ''d7'', score = ''2.5''\<rparr>, \<lparr>docid = ''d3'', score = ''1.0''\<rparr>] ! 0
     = ''q1 Q0 d7 1 2.5 run'' @ [CHR 0x0A]
   \<and> query_writes (\<lambda>sc. sc) ''q1'' [\<lparr>docid = ''d7'', score = ''2.5''\<rparr>, \<lparr>docid = ''d3'', score = ''1.0''\<rparr>] ! 1
     = ''q1 Q0 d3 2 1.0 run'' @ [CHR 0x0A]
   \<and> CHR 0x0A \<notin> set ''q1 Q0 d3 2 1.0 run''"
proof -
  let ?docs = "[\<lparr>docid = ''d7'', score = ''2.5''\<rparr>, \<lparr>docid = ''d3'', score = ''1.0''\<rparr>]"
  note lines = Evaluate_run_file_lines
    [of "\<lambda>sc. sc" "''q1''" ?docs "\<lambda>q. ?docs" "[]" "()" "[]", THEN conjunct2, THEN conjunct1, rule_format]
  show ?thesis
    using lines [of 0] lines [of 1] by (simp add: str_nat.simps digit_char_def)
qed

subsection \<open>The pairwise losses\<close>

text \<open>
  Claim C3. On every score tensor, \<open>pointwise.compute\<close> and
  \<open>NogueiraCrossEntropyLoss.compute\<close> give the same outcome: the same value, or the
  same exception.
\<close>

theorem pointwise_equals_Nogueira:
  "pointwise_compute rel_scores_by_record = NogueiraCrossEntropyLoss_compute rel_scores_by_record"
  by (simp add: pointwise_compute_def NogueiraCrossEntropyLoss_compute_def)

lemma length_first_against_rest: "length (first_against_rest f r) = (if r = [] then 0 else length r - 1)"
  by (cases r) (simp_all add: first_against_rest_def)

lemma first_against_rest_Cons: "first_against_rest f (p # ns) = map (f p) ns"
  by (simp add: first_against_rest_def)

lemma length_concat_le:
  "(\<And>r. r \<in> set rs \<Longrightarrow> length (f r) \<le> k) \<Longrightarrow> length (concat (map f rs)) \<le> length rs * k"
  by (induction rs) (auto simp: add_mono)

lemma length_concat_eq:
  "(\<And>r. r \<in> set rs \<Longrightarrow> length (f r) = k) \<Longrightarrow> length (concat (map f rs)) = length rs * k"
  by (induction rs) auto

lemma sum_list_concat_map:
  "sum_list (concat (map f rs)) = (\<Sum>r\<leftarrow>rs. sum_list (f r :: real list))"
  by (induction rs) simp_all

lemma sum_list_first_against_rest:
  "r \<noteq> [] \<Longrightarrow> sum_list (first_against_rest f r) = (\<Sum>n\<leftarrow>tl r. f (hd r) n)"
  by (cases r) (simp_all add: first_against_rest_Cons)

text \<open>
  Claim C6. On a score matrix with at least one row and, after the positive score in
  column 0, at least one negative score per row, \<open>HingeLoss.compute\<close> is the mean of
  \<open>relu(margin - positive + negative)\<close> over all pairs of a row and one of its
  negatives; the default margin is 1.0; the single row (0.3, 0.9) with that margin gives
  1.6.
\<close>

theorem HingeLoss_compute_mean_relu:
  assumes "wf_matrix m" and "1 \<le> length (rows m)" and "2 \<le> width m"
  shows "HingeLoss_compute h m
           = Fin ((\<Sum>r\<leftarrow>rows m. \<Sum>n\<leftarrow>tl r. relu (margin h - hd r + n))
                  / real (length (rows m) * (width m - 1)))
         \<and> margin HingeLoss_default = 1
         \<and> HingeLoss_compute HingeLoss_default \<lparr>width = 2, rows = [[3/10, 9/10]]\<rparr> = Fin (16/10)"
proof -
  let ?f = "\<lambda>p n. relu (margin h - p + n)"
  let ?xs = "concat (map (first_against_rest ?f) (rows m))"
  have row: "r \<noteq> [] \<and> length r = width m" if "r \<in> set (rows m)" for r
    using that assms(1,3) by (auto simp: wf_matrix_def)
  have len: "length ?xs = length (rows m) * (width m - 1)"
    by (rule length_concat_eq) (use row in \<open>simp add: length_first_against_rest\<close>)
  have "0 < length (rows m) * (width m - 1)" using assms(2,3) by (cases "rows m") auto
  then have ne: "?xs \<noteq> []" using len by (metis length_0_conv less_numeral_extra(3))
  have "sum_list ?xs = (\<Sum>r\<leftarrow>rows m. sum_list (first_against_rest ?f r))"
    by (rule sum_list_concat_map)
  also have "\<dots> = (\<Sum>r\<leftarrow>rows m. \<Sum>n\<leftarrow>tl r. ?f (hd r) n)"
    by (rule arg_cong [where f = sum_list], rule map_cong)
       (use row in \<open>simp_all add: sum_list_first_against_rest\<close>)
  finally have "HingeLoss_compute h m
           = Fin ((\<Sum>r\<leftarrow>rows m. \<Sum>n\<leftarrow>tl r. relu (margin h - hd r + n))
                  / real (length (rows m) * (width m - 1)))"
    using ne len unfolding HingeLoss_compute_def mean_def by simp
  moreover have "HingeLoss_compute HingeLoss_default \<lparr>width = 2, rows = [[3/10, 9/10]]\<rparr> = Fin (16/10)"
    by (simp add: HingeLoss_compute_def HingeLoss_default_def mean_def first_against_rest_def relu_def)
  ultimately show ?thesis by (simp add: HingeLoss_default_def)
qed

theorem HingeLoss_witness:
  "HingeLoss_compute \<lparr>margin = 1\<rparr> \<lparr>width = 3, rows = [[2, 1, 3], [0, 0, 0]]\<rparr> = Fin 1"
proof -
  have "wf_matrix \<lparr>width = 3, rows = [[2, 1, 3], [0, 0, 0 :: real]]\<rparr>"
    by (simp add: wf_matrix_def)
  from HingeLoss_compute_mean_relu [OF this, of "\<lparr>margin = 1\<rparr>"] show ?thesis
    by (simp add: relu_def)
qed

lemma exp_1_lower: "(271/100 :: real) < exp 1"
proof -
  have "(145/128 :: real) \<le> exp (1/8)"
    using exp_lower_Taylor_quadratic [of "1/8 :: real"] by (simp add: power2_eq_square)
  then have "(145/128 :: real) ^ 8 \<le> exp (1/8) ^ 8"
    by (rule power_mono) simp
  also have "exp (1/8 :: real) ^ 8 = exp 1"
    using exp_of_nat_mult [of 8 "1/8 :: real"] by simp
  finally have "(145/128 :: real) ^ 8 \<le> exp 1" .
  moreover have "(271/100 :: real) < (145/128) ^ 8" by (simp add: power_divide)
  ultimately show ?thesis by simp
qed

lemma exp_1_upper: "exp 1 < (273/100 :: real)"
proof -
  have sq: "exp (2 * x) \<le> b" if "exp x \<le> a" "a * a \<le> b" for x a b :: real
  proof -
    have "exp (2 * x) = exp x * exp x" by (simp add: exp_add [symmetric])
    also have "\<dots> \<le> a * a"
      using that(1) exp_ge_zero [of x] by (intro mult_mono) linarith+
    finally show ?thesis using that(2) by simp
  qed
  have "exp (1/128) \<le> (100787354/100000000 :: real)"
    using exp_bound [of "1/128 :: real"] by (simp add: power2_eq_square)
  from sq [OF this, of "101580908/100000000"] have "exp (1/64) \<le> (101580908/100000000 :: real)" by simp
  from sq [OF this, of "103186809/100000000"] have "exp (1/32) \<le> (103186809/100000000 :: real)" by simp
  from sq [OF this, of "106475176/100000000"] have "exp (1/16) \<le> (106475176/100000000 :: real)" by simp
  from sq [OF this, of "113369632/100000000"] have "exp (1/8) \<le> (113369632/100000000 :: real)" by simp
  from sq [OF this, of "128526735/100000000"] have "exp (1/4) \<le> (128526735/100000000 :: real)" by simp
  from sq [OF this, of "165191217/100000000"] have "exp (1/2) \<le> (165191217/100000000 :: real)" by simp
  from sq [OF this, of "272881382/100000000"] have "exp 1 \<le> (272881382/100000000 :: real)" by simp
  then show ?thesis by simp
qed

lemma softmax_10_approx: "\<bar>1 - exp 1 / (exp 1 + exp 0) - 269/1000\<bar> < (1/1000 :: real)"
proof -
  define v where "v = 1 / (1 + exp (1::real))"
  have pos: "0 < 1 + exp (1::real)" by (simp add: add_pos_pos)
  have eq: "1 - exp 1 / (exp 1 + exp 0) = v"
    using pos unfolding v_def by (simp add: field_simps)
  have "v < 1 / (1 + 271/100)"
    unfolding v_def using exp_1_lower by (intro divide_strict_left_mono) (simp_all add: add_pos_pos)
  then have up: "v < 270/1000" by simp
  have "1 / (1 + 273/100) < v"
    unfolding v_def using exp_1_upper pos by (intro divide_strict_left_mono) (simp_all add: add_pos_pos)
  then have lo: "268/1000 < v" by simp
  show ?thesis unfolding eq using up lo by linarith
qed

lemma SoftmaxLoss_compute_eq:
  assumes "wf_matrix m" and "1 \<le> length (rows m)" and "1 \<le> width m"
  shows "SoftmaxLoss_compute m
           = Inr (Fin ((\<Sum>r\<leftarrow>rows m. 1 - exp (r ! 0) / (\<Sum>x\<leftarrow>r. exp x))
                       / real (length (rows m))))"
proof -
  have row: "r \<noteq> []" if "r \<in> set (rows m)" for r
    using that assms(1,3) by (auto simp: wf_matrix_def)
  have ne: "rows m \<noteq> []" using assms(2) by auto
  have "(\<Sum>r\<leftarrow>rows m. 1 - softmax r ! 0)
          = (\<Sum>r\<leftarrow>rows m. 1 - exp (r ! 0) / (\<Sum>x\<leftarrow>r. exp x))"
    by (rule arg_cong [where f = sum_list], rule map_cong)
       (use row in \<open>simp_all add: softmax_def\<close>)
  then show ?thesis
    using ne assms(3)
    by (simp add: SoftmaxLoss_compute_def select_column_def mean_def comp_def)
qed

text \<open>
  Claim C5. On a score matrix with at least one row and at least two columns,
  \<open>SoftmaxLoss.compute\<close> is the mean over the rows of \<open>1 - softmax(row)[0]\<close>. When
  every row is \<open>[1, 0]\<close> this is \<open>1 - softmax([1, 0])[0]\<close>, which lies within 0.001
  of 0.269.
\<close>

theorem SoftmaxLoss_compute_mean:
  assumes "wf_matrix m" and "1 \<le> length (rows m)" and "2 \<le> width m"
  shows "SoftmaxLoss_compute m
           = Inr (Fin ((\<Sum>r\<leftarrow>rows m. 1 - exp (r ! 0) / (\<Sum>x\<leftarrow>r. exp x))
                       / real (length (rows m))))
         \<and> ((\<forall>r \<in> set (rows m). r = [1, 0]) \<longrightarrow>
              SoftmaxLoss_compute m = Inr (Fin (1 - exp 1 / (exp 1 + exp 0)))
              \<and> \<bar>1 - exp 1 / (exp 1 + exp 0) - 269/1000\<bar> < (1/1000 :: real))"
proof -
  have eq: "SoftmaxLoss_compute m
           = Inr (Fin ((\<Sum>r\<leftarrow>rows m. 1 - exp (r ! 0) / (\<Sum>x\<leftarrow>r. exp x))
                       / real (length (rows m))))"
    using assms by (intro SoftmaxLoss_compute_eq) simp_all
  have "SoftmaxLoss_compute m = Inr (Fin (1 - exp 1 / (exp 1 + exp 0)))"
    if all: "\<forall>r \<in> set (rows m). r = [1, 0]"
  proof -
    have "map (\<lambda>r. 1 - exp (r ! 0) / (\<Sum>x\<leftarrow>r. exp x)) (rows m)
            = map (\<lambda>r. 1 - exp 1 / (exp 1 + exp 0)) (rows m)"
      using all by (intro map_cong) auto
    then have "(\<Sum>r\<leftarrow>rows m. 1 - exp (r ! 0) / (\<Sum>x\<leftarrow>r. exp x))
            = real (length (rows m)) * (1 - exp 1 / (exp 1 + exp 0))"
      by (simp only: sum_list_triv)
    moreover have "real (length (rows m)) \<noteq> 0" using assms(2) by auto
    ultimately show ?thesis unfolding eq by simp
  qed
  then show ?thesis using eq softmax_10_approx by blast
qed

theorem SoftmaxLoss_witness:
  "SoftmaxLoss_compute \<lparr>width = 2, rows = [[1, 0], [1, 0]]\<rparr>
     = Inr (Fin (1 - exp 1 / (exp 1 + exp 0)))"
proof -
  have "wf_matrix \<lparr>width = 2, rows = [[1, 0], [1, 0 :: real]]\<rparr>"
    by (simp add: wf_matrix_def)
  from SoftmaxLoss_compute_mean [OF this] show ?thesis by simp
qed

subsection \<open>PairwiseTrainer.acc\<close>

text \<open>
  Claim C7. On a score matrix with at least one row and at least two columns, the
  accuracy is the number of pairs (row, negative) whose positive score is strictly
  greater than the negative, divided by the number of such pairs, and it lies between 0
  and 1.
\<close>

theorem acc_between_0_and_1:
  assumes "wf_matrix m" and "1 \<le> length (rows m)" and "2 \<le> width m"
  shows "acc m = Fin (real (length (concat (map (\<lambda>r. filter (\<lambda>n. fp_gt (hd r) n) (tl r)) (rows m))))
                      / real (length (rows m) * (width m - 1)))
         \<and> (case acc m of Fin a \<Rightarrow> 0 \<le> a \<and> a \<le> 1 | _ \<Rightarrow> False)"
proof -
  let ?B = "length (rows m)" and ?W = "width m"
  let ?hits = "concat (map (\<lambda>r. filter (\<lambda>b. b) (first_against_rest fp_gt r)) (rows m))"
  have row: "r \<noteq> [] \<and> length r = ?W" if "r \<in> set (rows m)" for r
    using that assms(1,3) by (auto simp: wf_matrix_def)
  have count: "int ?B * (int ?W - 1) = int (?B * (?W - 1))"
    using assms(3) by (simp add: of_nat_diff algebra_simps)
  have pos: "0 < ?B * (?W - 1)" using assms(2,3) by (cases "rows m") auto
  have "length (filter (\<lambda>b. b) (first_against_rest fp_gt r)) \<le> ?W - 1" if "r \<in> set (rows m)" for r
    using row[OF that] length_filter_le[of "\<lambda>b. b" "first_against_rest fp_gt r"]
    by (simp add: length_first_against_rest)
  then have le: "length ?hits \<le> ?B * (?W - 1)"
    by (rule length_concat_le)
  have "filter (\<lambda>b. b) (first_against_rest fp_gt r) = map (\<lambda>n. True) (filter (\<lambda>n. fp_gt (hd r) n) (tl r))"
    if rin: "r \<in> set (rows m)" for r
  proof -
    obtain p ns where "r = p # ns" using row[OF rin] by (cases r) auto
    then show ?thesis by (simp add: first_against_rest_Cons filter_map comp_def)
  qed
  then have "length ?hits = length (concat (map (\<lambda>r. filter (\<lambda>n. fp_gt (hd r) n) (tl r)) (rows m)))"
    by (simp add: length_concat cong: map_cong)
  moreover have a: "acc m = Fin (real (length ?hits) / real (?B * (?W - 1)))"
    using pos unfolding acc_def Let_def float_div_def count by simp
  moreover have "real (length ?hits) / real (?B * (?W - 1)) \<le> 1"
  proof -
    define k where "k = ?B * (?W - 1)"
    have "real (length ?hits) \<le> real k" "0 < real k"
      using le pos unfolding k_def by (simp_all only: of_nat_le_iff of_nat_0_less_iff)
    then have "real (length ?hits) / real k \<le> 1"
      by (simp only: divide_le_eq_1_pos)
    then show ?thesis unfolding k_def .
  qed
  ultimately show ?thesis by simp
qed

theorem acc_witness:
  "acc \<lparr>width = 2, rows = [[Fin 1, Fin 0], [Fin 0, Fin 1]]\<rparr> = Fin (1/2)"
proof -
  have "wf_matrix \<lparr>width = 2, rows = [[Fin 1, Fin 0], [Fin 0, Fin 1]]\<rparr>"
    by (simp add: wf_matrix_def)
  from acc_between_0_and_1 [OF this] show ?thesis by simp
qed

subsection \<open>PairwiseTrainer.train_batch\<close>

text \<open>
  Claim C1. When the ranker returns, for the batch pulled, a score that is NaN or
  infinite, \<open>train_batch\<close> raises \<open>SystemExit(1)\<close> after logging one error: no loss
  comes back. A run of further steps from this state ends with the same exception in
  the same state, so no later batch is pulled.
\<close>

theorem train_batch_aborts_on_nan_or_inf:
  assumes "iter_batches batch_size it (train_iter self) = Some (input_data, s')"
    and "ranker input_data = Inr rel_scores"
    and "\<exists>x \<in> set rel_scores. isnan x \<or> isinf x"
  shows "train_batch it ranker lossfn batch_size self
           = (Inl (SystemExit 1),
              self\<lparr>train_iter := s',
                    logged_errors := logged_errors self
                      @ [''nan or inf relevance score detected. Aborting.'']\<rparr>)
         \<and> train_steps it ranker lossfn batch_size (Suc n) self
           = (Inl (SystemExit 1),
              self\<lparr>train_iter := s',
                    logged_errors := logged_errors self
                      @ [''nan or inf relevance score detected. Aborting.'']\<rparr>)"
proof -
  from assms(3) have "list_ex isnan rel_scores \<or> list_ex isinf rel_scores"
    by (auto simp: list_ex_iff)
  then have "train_batch it ranker lossfn batch_size self
           = (Inl (SystemExit 1),
              self\<lparr>train_iter := s',
                    logged_errors := logged_errors self
                      @ [''nan or inf relevance score detected. Aborting.'']\<rparr>)"
    using assms(1,2) by (simp add: train_batch_def)
  then show ?thesis by simp
qed

theorem train_batch_aborts_witness:
  "train_steps list_next (\<lambda>b. Inr [Fin 1, NaN]) Softmax 1 3 \<lparr>train_iter = [(), ()], logged_errors = []\<rparr>
     = (Inl (SystemExit 1),
        \<lparr>train_iter = [()], logged_errors = [''nan or inf relevance score detected. Aborting.'']\<rparr>)"
  using train_batch_aborts_on_nan_or_inf
    [of 1 list_next "\<lparr>train_iter = [(), ()], logged_errors = []\<rparr>" "[()]" "[()]"
        "\<lambda>b. Inr [Fin 1, NaN]" "[Fin 1, NaN]" Softmax 2]
  by (simp add: iter_batches_def eval_nat_numeral)

subsection \<open>Dense.score_pairs\<close>

lemma sum_list_map2_upt:
  "length xs = n \<Longrightarrow> length ys = n \<Longrightarrow>
     (\<Sum>i\<leftarrow>[0..<n]. f (xs ! i) (ys ! i)) = sum_list (map2 f xs (ys :: 'b list) :: real list)"
  by (rule arg_cong [where f = sum_list], rule nth_equalityI) simp_all

lemma mat_mul_row_col:
  assumes "length q = k" and "length d = k"
  shows "mat_mul k 1 [q] (map (\<lambda>x. [x]) d) = [[sum_list (map2 (*) q d)]]"
proof -
  have "(\<Sum>i\<leftarrow>[0..<k]. q ! i * map (\<lambda>x. [x]) d ! i ! 0) = (\<Sum>i\<leftarrow>[0..<k]. q ! i * d ! i)"
    by (rule arg_cong [where f = sum_list], rule map_cong) (use assms in simp_all)
  then show ?thesis
    using assms by (simp add: mat_mul_def sum_list_map2_upt)
qed

lemma product_items:
  assumes "length qs = length ds"
    and "\<forall>q \<in> set qs. length q = k" and "\<forall>d \<in> set ds. length d = k"
  shows "map (map hd) (map (\<lambda>(x, y). mat_mul k 1 x y)
           (zip (map (\<lambda>r. [r]) qs) (map (\<lambda>r. map (\<lambda>x. [x]) r) ds)))
         = map2 (\<lambda>q d. [sum_list (map2 (*) q d)]) qs ds"
  using assms
  by (induction qs ds rule: list_induct2) (simp_all add: mat_mul_row_col del: One_nat_def)

lemma squeeze_singletons:
  "length qs = length ds \<Longrightarrow> map hd (map2 (\<lambda>q d. [f q d]) qs ds) = map2 f qs ds"
  by (induction qs ds rule: list_induct2) simp_all

lemma score_pairs_product:
  assumes "wf_matrix queries" and "wf_matrix documents"
    and "width queries = width documents"
    and "length (rows queries) = length (rows documents)"
  shows "\<exists>product. matmul3 (unsqueeze1 queries) (unsqueeze2 documents) = Inr product
           \<and> squeeze_last2 (squeeze_last3 product)
               = map2 (\<lambda>q d. sum_list (map2 (*) q d)) (rows queries) (rows documents)"
proof -
  let ?k = "width queries"
  let ?items = "map (\<lambda>(x, y). mat_mul ?k 1 x y)
           (zip (map (\<lambda>r. [r]) (rows queries)) (map (\<lambda>r. map (\<lambda>x. [x]) r) (rows documents)))"
  have m: "matmul3 (unsqueeze1 queries) (unsqueeze2 documents)
             = Inr \<lparr>dim1 = 1, dim2 = 1, items = ?items\<rparr>"
    using assms(3,4)
    by (simp add: matmul3_def unsqueeze1_def unsqueeze2_def broadcast_batch_def)
  have "\<forall>q \<in> set (rows queries). length q = ?k" "\<forall>d \<in> set (rows documents). length d = ?k"
    using assms(1,2,3) by (auto simp: wf_matrix_def)
  from product_items [OF assms(4) this]
  have "map hd (map (map hd) ?items)
          = map2 (\<lambda>q d. sum_list (map2 (*) q d)) (rows queries) (rows documents)"
    using squeeze_singletons [OF assms(4)] by simp
  then have "squeeze_last2 (squeeze_last3 \<lparr>dim1 = 1, dim2 = 1, items = ?items\<rparr>)
          = map2 (\<lambda>q d. sum_list (map2 (*) q d)) (rows queries) (rows documents)"
    by (simp only: squeeze_last2_def squeeze_last3_def tensor3.simps matrix.simps)
  with m show ?thesis by blast
qed

lemma foreach_returns:
  "foreach hs fn c = (called, c', None) \<Longrightarrow> called = hs"
proof (induction hs arbitrary: c called)
  case Nil
  then show ?case by simp
next
  case (Cons h hs)
  then show ?case
    by (cases "fn h c") (auto split: prod.splits)
qed

lemma foreach_raises:
  "foreach hs fn c = (called, c', Some e) \<Longrightarrow>
     \<exists>before h after. hs = before @ h # after \<and> called = before @ [h] \<and> fn h c' = Inl e"
proof (induction hs arbitrary: c called)
  case Nil
  then show ?case by simp
next
  case (Cons a hs)
  show ?case
  proof (cases "fn a c")
    case (Inl e')
    with Cons.prems have "called = [] @ [a]" "c' = c" "e' = e" by simp_all
    with Inl have "a # hs = [] @ a # hs \<and> called = [] @ [a] \<and> fn a c' = Inl e" by simp
    then show ?thesis by blast
  next
    case (Inr c1)
    with Cons.prems obtain called1 where
      run: "foreach hs fn c1 = (called1, c', Some e)" and called: "called = a # called1"
      by (auto split: prod.splits)
    from Cons.IH [OF run] obtain before h after where
      "hs = before @ h # after" "called1 = before @ [h]" "fn h c' = Inl e"
      by blast
    with called have "a # hs = (a # before) @ h # after \<and> called = (a # before) @ [h]
        \<and> fn h c' = Inl e"
      by simp
    then show ?thesis by blast
  qed
qed

text \<open>
  Claim C4, as stated, has every registered hook invoked exactly once in every call.
  With two hooks registered, the first a \<open>DualVectorListener\<close> of the base class, whose
  call raises \<open>NotImplementedError\<close>, the call of \<open>score_pairs\<close> computes the scores,
  invokes only the first hook, never the second, and returns no scores. With a query
  matrix and a document matrix of different widths the product raises and no hook is
  invoked.
\<close>

theorem score_pairs_raising_hook_skips_rest:
  "hooks two_hooks_context ''DualVectorListener'' = [0, 1]
   \<and> events (score_pairs base_then_idle one_by_one one_by_one (Some two_hooks_context))
       = [ScoresComputed [1], HookCalled 0 one_by_one one_by_one]
   \<and> returned (score_pairs base_then_idle one_by_one one_by_one (Some two_hooks_context))
       = Inl (NotImplementedError ''__call__ in DualVectorListener'')
   \<and> events (score_pairs idle_hook one_by_one one_by_two (Some two_hooks_context)) = []
   \<and> returned (score_pairs idle_hook one_by_one one_by_two (Some two_hooks_context))
       = Inl (RuntimeError ''mat1 and mat2 shapes cannot be multiplied'')"
  by (simp add: hooks_def two_hooks_context_def score_pairs_def matmul3_def unsqueeze1_def
      unsqueeze2_def broadcast_batch_def one_by_one_def one_by_two_def DualVectorListener_call_def
      squeeze_last2_def squeeze_last3_def mat_mul_def Let_def)

text \<open>
  Claim C4, amended. Take a call of \<open>score_pairs\<close> with a context and with query and
  document matrices of the same shape, and the run of the registered
  \<open>DualVectorListener\<close> hooks in that call, each called on the context the hooks before
  it have left. If no hook raises in that run, the call first computes the scores, then
  invokes each registered hook exactly once, in registration order, with the query and
  document matrices passed to \<open>score_pairs\<close>, then returns the scores, which are the
  dot products of the rows \<open>q_i\<close> and \<open>d_i\<close>, whatever the hooks do. If a hook raises
  in that run, the call has computed the scores and invoked the hooks up to and
  including that one, once each and in order; those after it are not invoked, and the
  exception is raised instead of scores.
\<close>

theorem score_pairs_hooks_once_in_order:
  assumes "wf_matrix queries" and "wf_matrix documents"
    and "width queries = width documents"
    and "length (rows queries) = length (rows documents)"
    and "foreach (hooks ctx ''DualVectorListener'')
           (\<lambda>hook c. call_hook hook c queries documents) ctx = (called, ctx', raised)"
  shows "(raised = None \<longrightarrow>
            events (score_pairs call_hook queries documents (Some ctx))
              = ScoresComputed
                  (map2 (\<lambda>q d. sum_list (map2 (*) q d)) (rows queries) (rows documents))
                # map (\<lambda>hook. HookCalled hook queries documents)
                    (hooks ctx ''DualVectorListener'')
            \<and> returned (score_pairs call_hook queries documents (Some ctx))
              = Inr (map2 (\<lambda>q d. sum_list (map2 (*) q d)) (rows queries) (rows documents)))
         \<and> (\<forall>e. raised = Some e \<longrightarrow>
              (\<exists>before hook after.
                 hooks ctx ''DualVectorListener'' = before @ hook # after
                 \<and> call_hook hook ctx' queries documents = Inl e
                 \<and> events (score_pairs call_hook queries documents (Some ctx))
                     = ScoresComputed
                         (map2 (\<lambda>q d. sum_list (map2 (*) q d)) (rows queries) (rows documents))
                       # map (\<lambda>h. HookCalled h queries documents) (before @ [hook]))
              \<and> returned (score_pairs call_hook queries documents (Some ctx)) = Inl e)"
proof -
  let ?fn = "\<lambda>hook c. call_hook hook c queries documents"
  let ?hs = "hooks ctx ''DualVectorListener''"
  let ?dots = "map2 (\<lambda>q d. sum_list (map2 (*) q d)) (rows queries) (rows documents)"
  from score_pairs_product [OF assms(1-4)] obtain product where
    p: "matmul3 (unsqueeze1 queries) (unsqueeze2 documents) = Inr product"
    and s: "squeeze_last2 (squeeze_last3 product) = ?dots"
    by blast
  have ok: "events (score_pairs call_hook queries documents (Some ctx))
              = ScoresComputed ?dots # map (\<lambda>hook. HookCalled hook queries documents) ?hs
            \<and> returned (score_pairs call_hook queries documents (Some ctx)) = Inr ?dots"
    if "raised = None"
  proof -
    from assms(5) that have run: "foreach ?hs ?fn ctx = (called, ctx', None)" by simp
    from foreach_returns [OF run] have "called = ?hs" .
    with run show ?thesis using p s by (simp add: score_pairs_def Let_def)
  qed
  have bad: "(\<exists>before hook after.
                 ?hs = before @ hook # after
                 \<and> call_hook hook ctx' queries documents = Inl e
                 \<and> events (score_pairs call_hook queries documents (Some ctx))
                     = ScoresComputed ?dots
                       # map (\<lambda>h. HookCalled h queries documents) (before @ [hook]))
              \<and> returned (score_pairs call_hook queries documents (Some ctx)) = Inl e"
    if "raised = Some e" for e
  proof -
    from assms(5) that have run: "foreach ?hs ?fn ctx = (called, ctx', Some e)" by simp
    from foreach_raises [OF run] obtain before hook after where
      b: "?hs = before @ hook # after" "called = before @ [hook]"
         "call_hook hook ctx' queries documents = Inl e"
      by blast
    have ev: "events (score_pairs call_hook queries documents (Some ctx))
                = ScoresComputed ?dots # map (\<lambda>h. HookCalled h queries documents) called"
      and ret: "returned (score_pairs call_hook queries documents (Some ctx)) = Inl e"
      using run p s by (simp_all add: score_pairs_def Let_def)
    from b ev have "?hs = before @ hook # after
                 \<and> call_hook hook ctx' queries documents = Inl e
                 \<and> events (score_pairs call_hook queries documents (Some ctx))
                     = ScoresComputed ?dots
                       # map (\<lambda>h. HookCalled h queries documents) (before @ [hook])"
      by simp
    then show ?thesis using ret by blast
  qed
  show ?thesis using ok bad by blast
qed

theorem score_pairs_witness:
  "events (score_pairs metrics_hook one_by_one one_by_one (Some metrics_context))
       = [ScoresComputed [1], HookCalled 0 one_by_one one_by_one,
          HookCalled 1 one_by_one one_by_one]
   \<and> returned (score_pairs metrics_hook one_by_one one_by_one (Some metrics_context)) = Inr [1]
   \<and> returned (score_pairs base_then_idle one_by_one one_by_one (Some two_hooks_context))
       = Inl (NotImplementedError ''__call__ in DualVectorListener'')"
proof -
  have wf: "wf_matrix one_by_one" by (simp add: wf_matrix_def one_by_one_def)
  have run1: "foreach (hooks metrics_context ''DualVectorListener'')
           (\<lambda>hook c. metrics_hook hook c one_by_one one_by_one) metrics_context
         = ([0, 1], metrics_context, None)"
    by (simp add: hooks_def metrics_context_def)
  have run2: "foreach (hooks two_hooks_context ''DualVectorListener'')
           (\<lambda>hook c. base_then_idle hook c one_by_one one_by_one) two_hooks_context
         = ([0], two_hooks_context,
            Some (NotImplementedError ''__call__ in DualVectorListener''))"
    by (simp add: hooks_def two_hooks_context_def DualVectorListener_call_def)
  have hs: "hooks metrics_context ''DualVectorListener'' = [0, 1]"
    by (simp add: hooks_def metrics_context_def)
  from score_pairs_hooks_once_in_order
         [where queries = one_by_one and documents = one_by_one
            and call_hook = metrics_hook, OF wf wf refl refl run1] hs
  have a: "events (score_pairs metrics_hook one_by_one one_by_one (Some metrics_context))
       = [ScoresComputed [1], HookCalled 0 one_by_one one_by_one,
          HookCalled 1 one_by_one one_by_one]
   \<and> returned (score_pairs metrics_hook one_by_one one_by_one (Some metrics_context)) = Inr [1]"
    by (simp add: one_by_one_def)
  from score_pairs_hooks_once_in_order
         [where queries = one_by_one and documents = one_by_one
            and call_hook = base_then_idle, OF wf wf refl refl run2]
  have "returned (score_pairs base_then_idle one_by_one one_by_one (Some two_hooks_context))
       = Inl (NotImplementedError ''__call__ in DualVectorListener'')"
    by blast
  with a show ?thesis by simp
qed

end
